theory Spec2Isabelle
  imports Complex_Main
begin

section \<open>The pension comparison engine of pension\_app.py\<close>

text \<open>
  The program projects the invested assets of two pension strategies (early and regular
  claiming) year by year and looks for the age at which one overtakes the other.

  Numbers: ages and year counts are Python integers, modelled as \<^typ>\<open>int\<close>. Amounts
  and rates are Python floats, modelled as \<^typ>\<open>real\<close>: every arithmetic operation is
  the exact one, so the rounding error of the binary floating-point operations, overflow
  to infinity and NaN produced by arithmetic are outside this model. The values recorded
  per age are Python integers (the result of \<open>round\<close>), modelled as \<^typ>\<open>int\<close>.
\<close>

subsection \<open>Exceptions\<close>

datatype py_error = TypeError | KeyError

subsection \<open>Pension amounts\<close>

text \<open>\<open>return 1 - (years_early * 0.06)\<close>\<close>

definition calculate_early_pension_reduction_rate :: "int \<Rightarrow> real" where
  "calculate_early_pension_reduction_rate years_early = 1 - (real_of_int years_early * 0.06)"

text \<open>
  The function computes the adjusted monthly pension in a local variable and returns
  twelve times it, the amount of the year. Before the start age it returns 0.
\<close>

definition calculate_annual_pension_with_increase_rate :: "real \<Rightarrow> int \<Rightarrow> int \<Rightarrow> real \<Rightarrow> real" where
  "calculate_annual_pension_with_increase_rate base_monthly_pension pension_start_age current_age
       pension_increase_rate =
     (if current_age < pension_start_age then 0
      else
        let years_since_start = current_age - pension_start_age;
            adjusted_monthly_pension =
              base_monthly_pension * ((1 + pension_increase_rate) ^ nat years_since_start)
        in adjusted_monthly_pension * 12)"

subsection \<open>Rounding\<close>

text \<open>
  Python's \<open>round\<close> on a float returns the nearest integer, and the even one of the two
  when the argument lies exactly halfway.
\<close>

definition py_round :: "real \<Rightarrow> int" where
  "py_round x =
     (let f = \<lfloor>x\<rfloor>; d = x - real_of_int f
      in if d < 1 / 2 then f
         else if 1 / 2 < d then f + 1
         else if even f then f else f + 1)"

subsection \<open>The simulation\<close>

text \<open>\<open>quarterly_return_rate = (1 + annual_return_rate)**(1/4) - 1\<close>\<close>

definition quarterly_return_rate :: "real \<Rightarrow> real" where
  "quarterly_return_rate annual_return_rate = (1 + annual_return_rate) powr (1 / 4) - 1"

text \<open>
  The inner loop \<open>for quarter in range(4)\<close>, with the number of quarters still to run as
  first argument: three monthly payments are added, then the quarter's return is applied.
\<close>

fun quarter_loop :: "nat \<Rightarrow> real \<Rightarrow> real \<Rightarrow> real \<Rightarrow> real" where
  "quarter_loop 0 monthly_pension_amount_received qrate current_capital = current_capital"
| "quarter_loop (Suc n) monthly_pension_amount_received qrate current_capital =
     quarter_loop n monthly_pension_amount_received qrate
       ((current_capital + monthly_pension_amount_received * 3) * (1 + qrate))"

text \<open>The branch on \<open>pension_type\<close>: anything other than \<open>"early"\<close> is the regular strategy.\<close>

definition annual_pension_income_for_current_year ::
  "real \<Rightarrow> real \<Rightarrow> real \<Rightarrow> string \<Rightarrow> int \<Rightarrow> int \<Rightarrow> int \<Rightarrow> real" where
  "annual_pension_income_for_current_year early_monthly_pension_at_start
       base_regular_monthly_pension pension_increase_rate pension_type
       regular_pension_start_age early_pension_start_age age =
     (if pension_type = ''early''
      then calculate_annual_pension_with_increase_rate early_monthly_pension_at_start
             early_pension_start_age age pension_increase_rate
      else calculate_annual_pension_with_increase_rate base_regular_monthly_pension
             regular_pension_start_age age pension_increase_rate)"

text \<open>
  The body of one iteration of \<open>for age in range(...)\<close> up to the four quarters: the
  capital at the end of the year of \<open>age\<close>.
\<close>

definition year_step ::
  "real \<Rightarrow> real \<Rightarrow> real \<Rightarrow> real \<Rightarrow> string \<Rightarrow> int \<Rightarrow> int \<Rightarrow> int \<Rightarrow> real \<Rightarrow> real" where
  "year_step early_monthly_pension_at_start base_regular_monthly_pension qrate
       pension_increase_rate pension_type regular_pension_start_age early_pension_start_age
       age current_capital =
     (let income = annual_pension_income_for_current_year early_monthly_pension_at_start
                     base_regular_monthly_pension pension_increase_rate pension_type
                     regular_pension_start_age early_pension_start_age age;
          monthly_pension_amount_received = income / 12
      in quarter_loop 4 monthly_pension_amount_received qrate current_capital)"

text \<open>
  The loop over the ages, as a function of the loop variable and of the state the loop
  changes: the running capital and the list \<open>data\<close> of recorded rows (age, rounded
  capital). Only the recorded value is rounded; the capital carried on is not.
\<close>

function age_loop ::
  "real \<Rightarrow> real \<Rightarrow> real \<Rightarrow> int \<Rightarrow> real \<Rightarrow> string \<Rightarrow> int \<Rightarrow> int \<Rightarrow> int \<Rightarrow> real
     \<Rightarrow> (int \<times> int) list \<Rightarrow> real \<times> (int \<times> int) list" where
  "age_loop early_monthly_pension_at_start base_regular_monthly_pension qrate
       investment_end_age pension_increase_rate pension_type regular_pension_start_age
       early_pension_start_age age current_capital data =
     (if age \<le> investment_end_age
      then
        let c = year_step early_monthly_pension_at_start base_regular_monthly_pension qrate
                  pension_increase_rate pension_type regular_pension_start_age
                  early_pension_start_age age current_capital
        in age_loop early_monthly_pension_at_start base_regular_monthly_pension qrate
             investment_end_age pension_increase_rate pension_type regular_pension_start_age
             early_pension_start_age (age + 1) c (data @ [(age, py_round c)])
      else (current_capital, data))"
  by pat_completeness auto
termination
  by (relation "measure (\<lambda>(e, b, q, end_age, i, t, rs, es, age, c, d). nat (end_age + 1 - age))")
     auto

text \<open>
  \<open>simulate_investment\<close> returns the recorded rows as a data frame, here the list of
  rows. When \<open>1 + annual_return_rate\<close> is negative, its power \<open>1/4\<close> is a complex number
  in Python, the capital becomes complex in the first year and \<open>round\<close> raises
  \<open>TypeError\<close>; with an empty age range nothing is rounded and the empty frame is returned.
\<close>

definition simulate_investment ::
  "real \<Rightarrow> real \<Rightarrow> real \<Rightarrow> real \<Rightarrow> int \<Rightarrow> int \<Rightarrow> real \<Rightarrow> string \<Rightarrow> int \<Rightarrow> int
     \<Rightarrow> py_error + (int \<times> int) list" where
  "simulate_investment initial_capital early_monthly_pension_at_start
       base_regular_monthly_pension annual_return_rate investment_start_age
       investment_end_age pension_increase_rate pension_type regular_pension_start_age
       early_pension_start_age =
     (if 1 + annual_return_rate < 0 \<and> investment_start_age \<le> investment_end_age
      then Inl TypeError
      else Inr (snd (age_loop early_monthly_pension_at_start base_regular_monthly_pension
                       (quarterly_return_rate annual_return_rate) investment_end_age
                       pension_increase_rate pension_type regular_pension_start_age
                       early_pension_start_age investment_start_age initial_capital [])))"

subsection \<open>The comparison of the two strategies\<close>

text \<open>
  A cell of a numeric column of a data frame: a number, or \<open>NaN\<close> where a left join
  found no matching row. Comparisons with \<open>NaN\<close> are false and arithmetic on \<open>NaN\<close>
  gives \<open>NaN\<close>.
\<close>

datatype cell = NaN | Num int

fun cell_gt :: "cell \<Rightarrow> int \<Rightarrow> bool" where
  "cell_gt NaN n = False"
| "cell_gt (Num v) n = (n < v)"

fun cell_lt :: "cell \<Rightarrow> int \<Rightarrow> bool" where
  "cell_lt NaN n = False"
| "cell_lt (Num v) n = (v < n)"

fun cell_ge :: "cell \<Rightarrow> int \<Rightarrow> bool" where
  "cell_ge NaN n = False"
| "cell_ge (Num v) n = (n \<le> v)"

fun cell_le :: "cell \<Rightarrow> int \<Rightarrow> bool" where
  "cell_le NaN n = False"
| "cell_le (Num v) n = (v \<le> n)"

fun cell_sub :: "cell \<Rightarrow> cell \<Rightarrow> cell" where
  "cell_sub (Num a) (Num b) = Num (a - b)"
| "cell_sub a b = NaN"

fun fillna :: "cell \<Rightarrow> int \<Rightarrow> cell" where
  "fillna NaN n = Num n"
| "fillna (Num v) n = Num v"

text \<open>
  \<open>pd.merge(left, right, on='age', how='left')\<close> where \<open>right\<close> is a frame returned by
  \<open>simulate_investment\<close>: every row of \<open>left\<close>, in order, once for each row of \<open>right\<close> with
  the same age and its value, or once with \<open>NaN\<close> when there is none. A frame built from
  an empty list of rows has no columns, and the merge on the age column raises \<open>KeyError\<close>.
\<close>

definition merge_left :: "('r \<Rightarrow> int) \<Rightarrow> 'r list \<Rightarrow> (int \<times> int) list \<Rightarrow> py_error + ('r \<times> cell) list" where
  "merge_left key left right =
     (if right = [] then Inl KeyError
      else Inr (concat (map (\<lambda>r.
             case filter (\<lambda>(k, v). k = key r) right of
               [] \<Rightarrow> [(r, NaN)]
             | ms \<Rightarrow> map (\<lambda>(k, v). (r, Num v)) ms) left)))"

text \<open>
  A row of the merged frame: the age, the assets of the early and of the regular
  strategy, and their difference (early minus regular).
\<close>

record merged_row =
  row_age :: int
  row_early :: cell
  row_regular :: cell
  row_diff :: cell

text \<open>
  The merged frame: the ages from the early start age to the end age, joined with the
  early frame, then with the regular frame, whose missing values are filled with 0, and
  the column of the differences.
\<close>

definition build_merged_df ::
  "int \<Rightarrow> int \<Rightarrow> (int \<times> int) list \<Rightarrow> (int \<times> int) list \<Rightarrow> py_error + merged_row list" where
  "build_merged_df early_pension_start_age investment_end_age early_pension_df regular_pension_df =
     (case merge_left (\<lambda>a. a) [early_pension_start_age..investment_end_age] early_pension_df of
        Inl e \<Rightarrow> Inl e
      | Inr m1 \<Rightarrow>
          (case merge_left fst m1 regular_pension_df of
             Inl e \<Rightarrow> Inl e
           | Inr m2 \<Rightarrow>
               Inr (map (\<lambda>((a, early), regular).
                      let filled = fillna regular 0
                      in \<lparr>row_age = a, row_early = early, row_regular = filled,
                          row_diff = cell_sub early filled\<rparr>) m2)))"

text \<open>
  The search for the crossover: the loop \<open>for i in range(1, len(merged_df))\<close>, which stops
  at the first index where the difference was positive and is now at most 0, or was
  negative and is now at least 0. \<open>None\<close> is the initial value of \<open>crossover_age\<close>.
\<close>

function crossover_scan :: "merged_row list \<Rightarrow> nat \<Rightarrow> int option" where
  "crossover_scan df i =
     (if i < length df
      then
        if cell_gt (row_diff (df ! (i - 1))) 0 \<and> cell_le (row_diff (df ! i)) 0
        then Some (row_age (df ! i))
        else if cell_lt (row_diff (df ! (i - 1))) 0 \<and> cell_ge (row_diff (df ! i)) 0
        then Some (row_age (df ! i))
        else crossover_scan df (i + 1)
      else None)"
  by pat_completeness auto
termination
  by (relation "measure (\<lambda>(df, i). length df - i)") auto

definition find_crossover_age :: "merged_row list \<Rightarrow> int option" where
  "find_crossover_age df = crossover_scan df 1"

text \<open>
  What the program reports: \<open>if crossover_age:\<close> takes the first branch for an age other
  than 0, and the other one for \<open>None\<close> and for the age 0.
\<close>

datatype report = Crossover_At int | No_Crossover_Found

definition crossover_report :: "int option \<Rightarrow> report" where
  "crossover_report crossover_age =
     (case crossover_age of
        None \<Rightarrow> No_Crossover_Found
      | Some a \<Rightarrow> if a \<noteq> 0 then Crossover_At a else No_Crossover_Found)"

text \<open>
  The calculation of the program, as a function of the five inputs of its form: the
  monthly amount at the regular age, the number of years of early claiming, the end age,
  the annual return rate and the annual increase rate of the pension. The regular start
  age is the constant 65.
\<close>

definition regular_pension_start_age :: int where
  "regular_pension_start_age = 65"

definition early_pension_start_age :: "int \<Rightarrow> int" where
  "early_pension_start_age early_pension_years = regular_pension_start_age - early_pension_years"

definition early_monthly_pension_at_start :: "int \<Rightarrow> int \<Rightarrow> real" where
  "early_monthly_pension_at_start base_regular_monthly_pension early_pension_years =
     real_of_int base_regular_monthly_pension
       * calculate_early_pension_reduction_rate early_pension_years"

definition early_pension_df :: "int \<Rightarrow> int \<Rightarrow> int \<Rightarrow> real \<Rightarrow> real \<Rightarrow> py_error + (int \<times> int) list" where
  "early_pension_df base_regular_monthly_pension early_pension_years investment_end_age
       annual_return_rate pension_increase_rate =
     simulate_investment 0
       (early_monthly_pension_at_start base_regular_monthly_pension early_pension_years)
       (real_of_int base_regular_monthly_pension) annual_return_rate
       (early_pension_start_age early_pension_years) investment_end_age pension_increase_rate
       ''early'' regular_pension_start_age (early_pension_start_age early_pension_years)"

definition regular_pension_df :: "int \<Rightarrow> int \<Rightarrow> int \<Rightarrow> real \<Rightarrow> real \<Rightarrow> py_error + (int \<times> int) list" where
  "regular_pension_df base_regular_monthly_pension early_pension_years investment_end_age
       annual_return_rate pension_increase_rate =
     simulate_investment 0
       (early_monthly_pension_at_start base_regular_monthly_pension early_pension_years)
       (real_of_int base_regular_monthly_pension) annual_return_rate
       regular_pension_start_age investment_end_age pension_increase_rate
       ''regular'' regular_pension_start_age (early_pension_start_age early_pension_years)"

record comparison =
  merged_df :: "merged_row list"
  crossover_age :: "int option"
  reported :: report

definition compare_strategies :: "int \<Rightarrow> int \<Rightarrow> int \<Rightarrow> real \<Rightarrow> real \<Rightarrow> py_error + comparison" where
  "compare_strategies base_regular_monthly_pension early_pension_years investment_end_age
       annual_return_rate pension_increase_rate =
     (case early_pension_df base_regular_monthly_pension early_pension_years
             investment_end_age annual_return_rate pension_increase_rate of
        Inl e \<Rightarrow> Inl e
      | Inr edf \<Rightarrow>
          (case regular_pension_df base_regular_monthly_pension early_pension_years
                  investment_end_age annual_return_rate pension_increase_rate of
             Inl e \<Rightarrow> Inl e
           | Inr rdf \<Rightarrow>
               (case build_merged_df (early_pension_start_age early_pension_years)
                       investment_end_age edf rdf of
                  Inl e \<Rightarrow> Inl e
                | Inr m \<Rightarrow>
                    Inr \<lparr>merged_df = m, crossover_age = find_crossover_age m,
                         reported = crossover_report (find_crossover_age m)\<rparr>)))"

subsection \<open>Reference notions of the specification\<close>

text \<open>
  The specification speaks of the capital obtained by compounding in full precision from
  the initial capital. This is that capital at the end of the year of age \<open>a\<close>, defined
  without any list of recorded rows and without rounding: before the start age it is the
  initial capital, and each year applies the four quarters of that year to the capital
  of the year before.
\<close>

function full_precision_capital ::
  "real \<Rightarrow> real \<Rightarrow> real \<Rightarrow> real \<Rightarrow> string \<Rightarrow> int \<Rightarrow> int \<Rightarrow> int \<Rightarrow> real \<Rightarrow> int \<Rightarrow> real" where
  "full_precision_capital e b q inc t rs es start c0 a =
     (if a < start then c0
      else year_step e b q inc t rs es a
             (full_precision_capital e b q inc t rs es start c0 (a - 1)))"
  by pat_completeness auto
termination
  by (relation "measure (\<lambda>(e, b, q, inc, t, rs, es, start, c0, a). nat (a + 1 - start))") auto

text \<open>
  The specification's simulator takes the amount and the start age of the strategy it
  simulates; in the program they are selected by \<open>pension_type\<close>.
\<close>

definition pension_source_amount :: "real \<Rightarrow> real \<Rightarrow> string \<Rightarrow> real" where
  "pension_source_amount e b t = (if t = ''early'' then e else b)"

definition pension_source_start_age :: "int \<Rightarrow> int \<Rightarrow> string \<Rightarrow> int" where
  "pension_source_start_age rs es t = (if t = ''early'' then es else rs)"

text \<open>
  The specification's sign change of the difference between the rows \<open>i - 1\<close> and \<open>i\<close>:
  positive and then at most 0, or negative and then at least 0.
\<close>

definition sign_change :: "merged_row list \<Rightarrow> nat \<Rightarrow> bool" where
  "sign_change df i =
     ((cell_gt (row_diff (df ! (i - 1))) 0 \<and> cell_le (row_diff (df ! i)) 0) \<or>
      (cell_lt (row_diff (df ! (i - 1))) 0 \<and> cell_ge (row_diff (df ! i)) 0))"

section \<open>Properties\<close>

subsection \<open>Rounding and the quarterly rate\<close>


lemma py_round_bounds: "\<lfloor>x\<rfloor> \<le> py_round x \<and> py_round x \<le> \<lfloor>x\<rfloor> + 1"
  by (simp add: py_round_def Let_def)

lemma py_round_same_floor:
  assumes "x \<le> y" "\<lfloor>x\<rfloor> = \<lfloor>y\<rfloor>"
  shows "py_round x \<le> py_round y"
proof -
  have "x - real_of_int \<lfloor>x\<rfloor> \<le> y - real_of_int \<lfloor>y\<rfloor>"
    using assms by simp
  then show ?thesis
    using assms(2) by (auto simp: py_round_def Let_def)
qed

lemma py_round_mono:
  assumes "x \<le> y"
  shows "py_round x \<le> py_round y"
proof (cases "\<lfloor>x\<rfloor> = \<lfloor>y\<rfloor>")
  case True
  with assms show ?thesis by (rule py_round_same_floor)
next
  case False
  have "\<lfloor>x\<rfloor> \<le> \<lfloor>y\<rfloor>" using assms by (rule floor_mono)
  with False have "\<lfloor>x\<rfloor> + 1 \<le> \<lfloor>y\<rfloor>" by simp
  moreover have "py_round x \<le> \<lfloor>x\<rfloor> + 1" using py_round_bounds by blast
  moreover have "\<lfloor>y\<rfloor> \<le> py_round y" using py_round_bounds by blast
  ultimately show ?thesis by linarith
qed

lemma py_round_of_int: "py_round (real_of_int n) = n"
  by (simp add: py_round_def)

lemma quarterly_return_rate_zero: "quarterly_return_rate 0 = 0"
  by (simp add: quarterly_return_rate_def)

lemma quarterly_return_rate_nonneg:
  "0 \<le> r \<Longrightarrow> 0 \<le> quarterly_return_rate r"
  by (simp add: quarterly_return_rate_def ge_one_powr_ge_zero)

lemma quarterly_identity:
  assumes "0 \<le> r"
  shows "(1 + quarterly_return_rate r) ^ 4 = 1 + r"
proof -
  have pos: "0 < 1 + r" using assms by simp
  have "(1 + quarterly_return_rate r) ^ 4 = ((1 + r) powr (1 / 4)) ^ 4"
    by (simp add: quarterly_return_rate_def)
  also have "\<dots> = ((1 + r) powr (1 / 4)) powr (real (4::nat))"
  proof -
    have "0 < (1 + r) powr (1 / 4)" using pos by simp
    then show ?thesis by (simp only: powr_realpow)
  qed
  also have "\<dots> = (1 + r) powr 1"
    by (simp add: powr_powr)
  also have "\<dots> = 1 + r" using pos by simp
  finally show ?thesis .
qed

subsection \<open>The loop over the ages\<close>


declare full_precision_capital.simps [simp del]
declare age_loop.simps [simp del]

lemma full_precision_capital_before:
  "a < start \<Longrightarrow> full_precision_capital e b q inc t rs es start c0 a = c0"
  by (simp add: full_precision_capital.simps)

lemma full_precision_capital_step:
  "start \<le> a \<Longrightarrow> full_precision_capital e b q inc t rs es start c0 a =
     year_step e b q inc t rs es a (full_precision_capital e b q inc t rs es start c0 (a - 1))"
  by (subst full_precision_capital.simps) simp

lemma full_precision_capital_shift:
  assumes "start \<le> a"
  shows "full_precision_capital e b q inc t rs es (start + 1) (year_step e b q inc t rs es start c0) a
         = full_precision_capital e b q inc t rs es start c0 a"
  using assms
proof (induction a rule: int_ge_induct)
  case base
  show ?case
    by (simp add: full_precision_capital_before full_precision_capital_step)
next
  case (step i)
  have "full_precision_capital e b q inc t rs es (start + 1) (year_step e b q inc t rs es start c0) (i + 1)
        = year_step e b q inc t rs es (i + 1)
            (full_precision_capital e b q inc t rs es (start + 1) (year_step e b q inc t rs es start c0) i)"
    using step.hyps by (simp add: full_precision_capital_step)
  also have "\<dots> = year_step e b q inc t rs es (i + 1) (full_precision_capital e b q inc t rs es start c0 i)"
    by (simp only: step.IH)
  also have "\<dots> = full_precision_capital e b q inc t rs es start c0 (i + 1)"
    using step.hyps by (simp add: full_precision_capital_step)
  finally show ?case .
qed

lemma age_loop_eq:
  "age_loop e b q end_age inc t rs es a c data =
     (full_precision_capital e b q inc t rs es a c (max end_age (a - 1)),
      data @ map (\<lambda>k. (k, py_round (full_precision_capital e b q inc t rs es a c k))) [a..end_age])"
proof (induction e b q end_age inc t rs es a c data rule: age_loop.induct)
  case (1 e b q end_age inc t rs es a c data)
  show ?case
  proof (cases "a \<le> end_age")
    case False
    then show ?thesis
      by (simp add: age_loop.simps full_precision_capital_before max_def)
  next
    case True
    define c' where "c' = year_step e b q inc t rs es a c"
    have c'_eq: "full_precision_capital e b q inc t rs es a c a = c'"
      by (simp add: c'_def full_precision_capital_step full_precision_capital_before)
    have shift: "full_precision_capital e b q inc t rs es (a + 1) c' k
                 = full_precision_capital e b q inc t rs es a c k" if "a \<le> k" for k
      unfolding c'_def using that by (rule full_precision_capital_shift)
    have IH: "age_loop e b q end_age inc t rs es (a + 1) c' (data @ [(a, py_round c')]) =
       (full_precision_capital e b q inc t rs es (a + 1) c' (max end_age (a + 1 - 1)),
        (data @ [(a, py_round c')]) @
          map (\<lambda>k. (k, py_round (full_precision_capital e b q inc t rs es (a + 1) c' k))) [a + 1..end_age])"
      using "1.IH" [OF True c'_def] .
    have m: "max end_age (a + 1 - 1) = end_age" "max end_age (a - 1) = end_age"
      using True by simp_all
    have tl: "map (\<lambda>k. (k, py_round (full_precision_capital e b q inc t rs es (a + 1) c' k))) [a + 1..end_age]
              = map (\<lambda>k. (k, py_round (full_precision_capital e b q inc t rs es a c k))) [a + 1..end_age]"
      by (rule map_cong) (simp_all add: shift)
    have up: "[a..end_age] = a # [a + 1..end_age]"
      using True by (simp add: upto_rec1)
    have "age_loop e b q end_age inc t rs es a c data
          = age_loop e b q end_age inc t rs es (a + 1) c' (data @ [(a, py_round c')])"
      using True by (subst age_loop.simps) (simp add: c'_def Let_def)
    also note IH
    finally show ?thesis
      using True by (simp add: m tl up c'_eq shift)
  qed
qed

subsection \<open>Growth of the capital\<close>


lemma quarter_loop_zero_rate: "quarter_loop n m 0 c = c + 3 * m * real n"
  by (induction n arbitrary: c) (simp_all add: algebra_simps)

lemma quarter_loop_ge:
  "0 \<le> m \<Longrightarrow> 0 \<le> q \<Longrightarrow> 0 \<le> c \<Longrightarrow> c \<le> quarter_loop n m q c"
proof (induction n arbitrary: c)
  case 0
  then show ?case by simp
next
  case (Suc n)
  let ?c = "(c + m * 3) * (1 + q)"
  have a: "c + m * 3 \<le> ?c"
    using Suc.prems by (simp add: mult_le_cancel_left1 add_nonneg_nonneg)
  have "c \<le> c + m * 3" using Suc.prems by simp
  with a have b: "c \<le> ?c" by linarith
  with Suc.prems have "0 \<le> ?c" by linarith
  then have "?c \<le> quarter_loop n m q ?c"
    using Suc.prems by (intro Suc.IH)
  with b show ?case by simp
qed

lemma year_step_ge:
  assumes "0 \<le> annual_pension_income_for_current_year e b inc t rs es a" "0 \<le> q" "0 \<le> c"
  shows "c \<le> year_step e b q inc t rs es a c"
  unfolding year_step_def Let_def
  using assms by (intro quarter_loop_ge) simp_all

lemma full_precision_capital_nonneg:
  assumes "0 \<le> c0" "0 \<le> q"
    and inc: "\<And>k. start \<le> k \<Longrightarrow> k \<le> end_age \<Longrightarrow> 0 \<le> annual_pension_income_for_current_year e b inc t rs es k"
    and "start - 1 \<le> a" 
  shows "a \<le> end_age \<Longrightarrow> 0 \<le> full_precision_capital e b q inc t rs es start c0 a"
  using assms(4)
proof (induction a rule: int_ge_induct)
  case base
  then show ?case using assms(1) by (simp add: full_precision_capital_before)
next
  case (step i)
  then have nn: "0 \<le> full_precision_capital e b q inc t rs es start c0 i" by simp
  have "full_precision_capital e b q inc t rs es start c0 i
        \<le> year_step e b q inc t rs es (i + 1) (full_precision_capital e b q inc t rs es start c0 i)"
    using step nn assms(2) by (intro year_step_ge inc) simp_all
  then show ?case using nn step.hyps by (simp add: full_precision_capital_step)
qed

lemma full_precision_capital_step_le:
  assumes "0 \<le> c0" "0 \<le> q"
    and inc: "\<And>k. start \<le> k \<Longrightarrow> k \<le> end_age \<Longrightarrow> 0 \<le> annual_pension_income_for_current_year e b inc t rs es k"
    and "start - 1 \<le> a" "a + 1 \<le> end_age"
  shows "full_precision_capital e b q inc t rs es start c0 a
         \<le> full_precision_capital e b q inc t rs es start c0 (a + 1)"
proof -
  have nn: "0 \<le> full_precision_capital e b q inc t rs es start c0 a"
    using assms by (intro full_precision_capital_nonneg [where end_age = end_age]) simp_all
  have "full_precision_capital e b q inc t rs es start c0 a
        \<le> year_step e b q inc t rs es (a + 1) (full_precision_capital e b q inc t rs es start c0 a)"
    using assms nn by (intro year_step_ge inc) simp_all
  then show ?thesis using assms(4) by (simp add: full_precision_capital_step)
qed

lemma full_precision_capital_mono:
  assumes "0 \<le> c0" "0 \<le> q"
    and inc: "\<And>k. start \<le> k \<Longrightarrow> k \<le> end_age \<Longrightarrow> 0 \<le> annual_pension_income_for_current_year e b inc t rs es k"
    and "start \<le> x" "x \<le> y"
  shows "y \<le> end_age \<Longrightarrow> full_precision_capital e b q inc t rs es start c0 x
         \<le> full_precision_capital e b q inc t rs es start c0 y"
  using assms(5)
proof (induction y rule: int_ge_induct)
  case base
  show ?case by simp
next
  case (step i)
  have "full_precision_capital e b q inc t rs es start c0 i
        \<le> full_precision_capital e b q inc t rs es start c0 (i + 1)"
    using assms(1,2,4) step by (intro full_precision_capital_step_le [where end_age = end_age] inc) simp_all
  with step show ?case by simp
qed

lemma sorted_recorded:
  assumes "0 \<le> c0" "0 \<le> q"
    and inc: "\<And>k. start \<le> k \<Longrightarrow> k \<le> end_age \<Longrightarrow> 0 \<le> annual_pension_income_for_current_year e b inc t rs es k"
  shows "sorted (map (\<lambda>k. py_round (full_precision_capital e b q inc t rs es start c0 k)) [start..end_age])"
proof -
  have "sorted_wrt (\<lambda>x y. py_round (full_precision_capital e b q inc t rs es start c0 x)
                         \<le> py_round (full_precision_capital e b q inc t rs es start c0 y)) [start..end_age]"
  proof (rule sorted_wrt_mono_rel [of _ "(\<le>)"])
    fix x y assume "x \<in> set [start..end_age]" "y \<in> set [start..end_age]" "x \<le> y"
    then show "py_round (full_precision_capital e b q inc t rs es start c0 x)
               \<le> py_round (full_precision_capital e b q inc t rs es start c0 y)"
      using assms(1,2) by (intro py_round_mono full_precision_capital_mono [where end_age = end_age] inc) simp_all
  next
    show "sorted_wrt (\<le>) [start..end_age]" by simp
  qed
  then show ?thesis by (simp add: sorted_map)
qed

lemma full_precision_capital_linear:
  assumes inc: "\<And>k. start \<le> k \<Longrightarrow> annual_pension_income_for_current_year e b inc t rs es k = amt * 12"
    and "start - 1 \<le> a"
  shows "full_precision_capital e b 0 inc t rs es start c0 a = c0 + amt * 12 * real_of_int (a - start + 1)"
  using assms(2)
proof (induction a rule: int_ge_induct)
  case base
  show ?case by (simp add: full_precision_capital_before)
next
  case (step i)
  have "full_precision_capital e b 0 inc t rs es start c0 (i + 1)
        = year_step e b 0 inc t rs es (i + 1) (full_precision_capital e b 0 inc t rs es start c0 i)"
    using step.hyps by (simp add: full_precision_capital_step)
  also have "\<dots> = full_precision_capital e b 0 inc t rs es start c0 i + amt * 12"
    using step.hyps by (simp add: year_step_def Let_def inc quarter_loop_zero_rate)
  finally show ?case by (simp add: step.IH algebra_simps)
qed

subsection \<open>Pension amounts\<close>

text \<open>
  C9. For every base amount, start age and increase rate, and every current age below
  the start age, the pension function returns 0.
\<close>

theorem C9_zero_before_start:
  "current_age < pension_start_age \<Longrightarrow>
   calculate_annual_pension_with_increase_rate amt pension_start_age current_age rate = 0"
  by (simp add: calculate_annual_pension_with_increase_rate_def)

theorem C9_zero_before_start_witness:
  "(64::int) < 65 \<and> calculate_annual_pension_with_increase_rate 1000000 65 64 (34 / 1000) = 0"
  using C9_zero_before_start [of 64 65 1000000 "34 / 1000"] by simp

text \<open>
  C1 (as the program has it). For a current age not below the start age the function
  returns the amount of the year, twelve times the adjusted monthly pension
  \<open>amt * (1 + r) ^ (a - s)\<close>; the monthly figure that the simulation derives from it by
  dividing by 12 is \<open>amt * (1 + r) ^ (a - s)\<close>, and at the start age it is \<open>amt\<close>.
\<close>

theorem C1_annual_amount:
  "s \<le> a \<Longrightarrow>
   calculate_annual_pension_with_increase_rate amt s a r = 12 * (amt * (1 + r) ^ nat (a - s)) \<and>
   calculate_annual_pension_with_increase_rate amt s a r / 12 = amt * (1 + r) ^ nat (a - s) \<and>
   calculate_annual_pension_with_increase_rate amt s s r = 12 * amt \<and>
   calculate_annual_pension_with_increase_rate amt s s r / 12 = amt"
  by (simp add: calculate_annual_pension_with_increase_rate_def Let_def)

theorem C1_annual_amount_witness:
  "(65::int) \<le> 67 \<and>
   calculate_annual_pension_with_increase_rate 1000000 65 67 (1 / 10) = 14520000 \<and>
   calculate_annual_pension_with_increase_rate 1000000 65 67 (1 / 10) / 12 = 1210000 \<and>
   calculate_annual_pension_with_increase_rate 1000000 65 65 (1 / 10) = 12000000 \<and>
   calculate_annual_pension_with_increase_rate 1000000 65 65 (1 / 10) / 12 = 1000000"
  using C1_annual_amount [of 65 67 1000000 "1 / 10"] by (simp add: power2_eq_square)

text \<open>
  The claim C1 as written fails: at the start age the function returns twelve times the
  base monthly amount, not the base monthly amount.
\<close>

theorem C1_counterexample:
  "calculate_annual_pension_with_increase_rate 1000000 65 65 (34 / 1000) = 12000000 \<and>
   calculate_annual_pension_with_increase_rate 1000000 65 65 (34 / 1000)
     \<noteq> 1000000 * (1 + 34 / 1000) ^ nat (65 - 65)"
  by (simp add: calculate_annual_pension_with_increase_rate_def)

text \<open>
  C4. The reduction factor for \<open>y\<close> years of early claiming is \<open>1 - 0.06 * y\<close>; it is 1
  for no year and 0.70 for five years.
\<close>

theorem C4_reduction_factor:
  "calculate_early_pension_reduction_rate y = 1 - 0.06 * real_of_int y \<and>
   calculate_early_pension_reduction_rate 0 = 1 \<and>
   calculate_early_pension_reduction_rate 5 = 0.70"
  by (simp add: calculate_early_pension_reduction_rate_def)

subsection \<open>The simulation\<close>

lemma simulate_investment_eq:
  "simulate_investment c0 e b r start end_age inc t rs es =
     (if 1 + r < 0 \<and> start \<le> end_age then Inl TypeError
      else Inr (map (\<lambda>a. (a, py_round (full_precision_capital e b (quarterly_return_rate r)
                                         inc t rs es start c0 a)))
                  [start..end_age]))"
  by (simp add: simulate_investment_def age_loop_eq)

text \<open>
  C8. For an annual return rate that is not negative, the quarterly rate of the
  simulation compounds over four quarters to the annual rate.
\<close>

theorem C8_quarterly_identity:
  "0 \<le> r \<Longrightarrow> (1 + quarterly_return_rate r) ^ 4 = 1 + r"
  by (rule quarterly_identity)

theorem C8_quarterly_identity_witness:
  "(0::real) \<le> 5 / 100 \<and> (1 + quarterly_return_rate (5 / 100)) ^ 4 = 1 + 5 / 100"
  using C8_quarterly_identity [of "5 / 100"] by simp

text \<open>
  C7. The loop carries the capital compounded in full precision: after the loop the
  running capital is the full-precision capital of the last age, whatever rows were
  recorded, and the row recorded for each age is that age with the rounded
  full-precision capital. The frame returned by \<open>simulate_investment\<close> consists of these
  rows.
\<close>

theorem C7_full_precision:
  "age_loop e b q end_age inc t rs es start c0 data =
     (full_precision_capital e b q inc t rs es start c0 (max end_age (start - 1)),
      data @ map (\<lambda>a. (a, py_round (full_precision_capital e b q inc t rs es start c0 a)))
               [start..end_age]) \<and>
   simulate_investment c0 e b r start end_age inc t rs es =
     (if 1 + r < 0 \<and> start \<le> end_age then Inl TypeError
      else Inr (map (\<lambda>a. (a, py_round (full_precision_capital e b (quarterly_return_rate r)
                                         inc t rs es start c0 a)))
                  [start..end_age]))"
  by (simp add: simulate_investment_eq age_loop_eq)

text \<open>
  C5. With an annual return rate and an initial capital that are not negative, and a
  pension income that is not negative at any age of the simulation, the simulation
  returns a frame whose recorded assets never decrease with the age.
\<close>

theorem C5_monotone:
  assumes "0 \<le> r" "0 \<le> c0"
    and "\<forall>a \<in> {start..end_age}. 0 \<le> annual_pension_income_for_current_year e b inc t rs es a"
  shows "\<exists>df. simulate_investment c0 e b r start end_age inc t rs es = Inr df \<and> sorted (map snd df)"
proof -
  have "sorted (map (\<lambda>k. py_round (full_precision_capital e b (quarterly_return_rate r)
                                     inc t rs es start c0 k)) [start..end_age])"
    using assms by (intro sorted_recorded quarterly_return_rate_nonneg) simp_all
  then show ?thesis
    using assms(1) by (simp add: simulate_investment_eq comp_def)
qed

theorem C5_monotone_witness:
  "(0::real) \<le> 5 / 100 \<and> (0::real) \<le> 0 \<and>
   0 \<le> annual_pension_income_for_current_year 700000 1000000 (34 / 1000) ''early'' 65 60 60 \<and>
   (\<exists>df. simulate_investment 0 700000 1000000 (5 / 100) 60 80 (34 / 1000) ''early'' 65 60 = Inr df
         \<and> sorted (map snd df))"
proof -
  have h: "\<forall>a \<in> {60..80}. 0 \<le> annual_pension_income_for_current_year 700000 1000000 (34 / 1000)
                               ''early'' 65 60 a"
    by (simp add: annual_pension_income_for_current_year_def
        calculate_annual_pension_with_increase_rate_def)
  show ?thesis
    using h C5_monotone [of "5 / 100" 0 60 80 700000 1000000 "34 / 1000" "''early''" 65 60]
    by simp
qed

lemma income_own_start:
  "pension_source_start_age rs es t \<le> k \<Longrightarrow>
   annual_pension_income_for_current_year e b 0 t rs es k = pension_source_amount e b t * 12"
  by (auto simp: annual_pension_income_for_current_year_def pension_source_amount_def
      pension_source_start_age_def calculate_annual_pension_with_increase_rate_def
      split: if_splits)

lemma zero_rates_capital:
  assumes "pension_source_start_age rs es t \<le> a"
  shows "full_precision_capital e b 0 0 t rs es (pension_source_start_age rs es t) 0 a
         = pension_source_amount e b t * 12 * real_of_int (a - pension_source_start_age rs es t + 1)"
  using full_precision_capital_linear
          [of "pension_source_start_age rs es t" e b 0 t rs es "pension_source_amount e b t" a 0]
        income_own_start [of rs es t _ e b] assms
  by simp

text \<open>
  C6 (as the program has it). With a return rate of 0, an increase rate of 0 and no
  initial capital, a simulation that starts at the start age of its own strategy records
  at each age \<open>a\<close> the rounded value of \<open>amount * 12 * (a - start + 1)\<close>; when the monthly
  amount is a whole number the recorded value is exactly that product.
\<close>

theorem C6_zero_rates:
  "simulate_investment 0 e b 0 (pension_source_start_age rs es t) end_age 0 t rs es =
     Inr (map (\<lambda>a. (a, py_round (pension_source_amount e b t * 12
                          * real_of_int (a - pension_source_start_age rs es t + 1))))
            [pension_source_start_age rs es t..end_age]) \<and>
   (pension_source_amount e b t = real_of_int n \<longrightarrow>
     simulate_investment 0 e b 0 (pension_source_start_age rs es t) end_age 0 t rs es =
     Inr (map (\<lambda>a. (a, n * 12 * (a - pension_source_start_age rs es t + 1)))
            [pension_source_start_age rs es t..end_age]))"
proof -
  let ?s = "pension_source_start_age rs es t"
  have first: "simulate_investment 0 e b 0 ?s end_age 0 t rs es =
     Inr (map (\<lambda>a. (a, py_round (pension_source_amount e b t * 12 * real_of_int (a - ?s + 1))))
            [?s..end_age])"
    by (simp add: simulate_investment_eq quarterly_return_rate_zero zero_rates_capital)
  have "py_round (real_of_int n * 12 * real_of_int (a - ?s + 1)) = n * 12 * (a - ?s + 1)" for a
    using py_round_of_int [of "n * 12 * (a - ?s + 1)"] by simp
  then have "pension_source_amount e b t = real_of_int n \<Longrightarrow>
     simulate_investment 0 e b 0 ?s end_age 0 t rs es =
     Inr (map (\<lambda>a. (a, n * 12 * (a - ?s + 1))) [?s..end_age])"
    by (simp add: first)
  with first show ?thesis by blast
qed

theorem C6_zero_rates_witness:
  "pension_source_amount 700000 1000000 ''regular'' = real_of_int 1000000 \<and>
   simulate_investment 0 700000 1000000 0 (pension_source_start_age 65 60 ''regular'') 67 0
       ''regular'' 65 60 =
     Inr [(65, 12000000), (66, 24000000), (67, 36000000)]"
proof -
  have h: "pension_source_amount 700000 1000000 ''regular'' = real_of_int 1000000"
    by (simp add: pension_source_amount_def)
  have u: "[65..67] = [65, 66, 67::int]"
    by (simp add: upto_rec1)
  show ?thesis
    using h C6_zero_rates [of 700000 1000000 65 60 "''regular''" 67 1000000, THEN conjunct2]
    by (simp add: pension_source_start_age_def u)
qed

text \<open>
  The claim C6 as written fails when the monthly amount is not a whole number, which the
  form allows: a regular amount of 100001 claimed one year early gives the monthly
  amount 94000.94, the capital 1128011.28 after the first year, and the recorded value
  1128011.
\<close>

theorem C6_counterexample:
  "early_pension_df 100001 1 66 0 0 = Inr [(64, 1128011), (65, 2256023), (66, 3384034)] \<and>
   real_of_int 1128011 \<noteq> early_monthly_pension_at_start 100001 1 * 12 * real_of_int (64 - 64 + 1)"
  by (simp add: early_pension_df_def simulate_investment_def age_loop.simps year_step_def
      annual_pension_income_for_current_year_def calculate_annual_pension_with_increase_rate_def
      early_monthly_pension_at_start_def calculate_early_pension_reduction_rate_def
      early_pension_start_age_def regular_pension_start_age_def
      quarterly_return_rate_zero quarter_loop_zero_rate py_round_def Let_def)

subsection \<open>The crossover\<close>

declare crossover_scan.simps [simp del]

lemma crossover_scan_none:
  "(\<And>j. i \<le> j \<Longrightarrow> j < length df \<Longrightarrow> \<not> sign_change df j) \<Longrightarrow> crossover_scan df i = None"
proof (induction df i rule: crossover_scan.induct)
  case (1 df i)
  show ?case
  proof (cases "i < length df")
    case False
    then show ?thesis by (simp add: crossover_scan.simps)
  next
    case True
    have ns: "\<not> sign_change df i" using "1.prems" True by simp
    have "crossover_scan df (i + 1) = None"
      using ns True "1.prems" by (intro "1.IH") (auto simp: sign_change_def)
    then show ?thesis
      using ns True by (subst crossover_scan.simps) (auto simp: sign_change_def)
  qed
qed

lemma crossover_scan_first:
  "i \<le> k \<Longrightarrow> k < length df \<Longrightarrow> sign_change df k \<Longrightarrow>
   (\<And>j. i \<le> j \<Longrightarrow> j < k \<Longrightarrow> \<not> sign_change df j) \<Longrightarrow>
   crossover_scan df i = Some (row_age (df ! k))"
proof (induction df i rule: crossover_scan.induct)
  case (1 df i)
  have lt: "i < length df" using "1.prems" by simp
  show ?case
  proof (cases "i = k")
    case True
    then show ?thesis
      using "1.prems"(2,3) by (subst crossover_scan.simps) (auto simp: sign_change_def)
  next
    case False
    then have ik: "i < k" using "1.prems"(1) by simp
    have ns: "\<not> sign_change df i" using "1.prems"(4) ik by simp
    have "crossover_scan df (i + 1) = Some (row_age (df ! k))"
      using ns lt ik "1.prems" by (intro "1.IH") (auto simp: sign_change_def)
    then show ?thesis
      using ns lt by (subst crossover_scan.simps) (auto simp: sign_change_def)
  qed
qed

text \<open>
  C2. The search reports the age of the first row, from the second row on, at which the
  difference changes sign against the row before; when no row does, it reports nothing.
  For the differences 5, 2, -1, -3 at the ages 65 to 68 it reports 67; for the
  differences 3, 0, -2 it reports the age of the row with the difference 0.
\<close>

theorem C2_crossover:
  "(1 \<le> k \<and> k < length df \<and> sign_change df k \<and> (\<forall>j. 1 \<le> j \<and> j < k \<longrightarrow> \<not> sign_change df j)
      \<longrightarrow> find_crossover_age df = Some (row_age (df ! k))) \<and>
   ((\<forall>j. 1 \<le> j \<and> j < length df \<longrightarrow> \<not> sign_change df j) \<longrightarrow> find_crossover_age df = None) \<and>
   (map row_age df1 = [65, 66, 67, 68] \<and> map row_diff df1 = [Num 5, Num 2, Num (- 1), Num (- 3)]
      \<longrightarrow> find_crossover_age df1 = Some 67) \<and>
   (map row_diff df2 = [Num 3, Num 0, Num (- 2)] \<longrightarrow> find_crossover_age df2 = Some (row_age (df2 ! 1)))"
proof (intro conjI impI)
  assume "1 \<le> k \<and> k < length df \<and> sign_change df k \<and> (\<forall>j. 1 \<le> j \<and> j < k \<longrightarrow> \<not> sign_change df j)"
  then show "find_crossover_age df = Some (row_age (df ! k))"
    unfolding find_crossover_age_def by (intro crossover_scan_first) auto
next
  assume "\<forall>j. 1 \<le> j \<and> j < length df \<longrightarrow> \<not> sign_change df j"
  then show "find_crossover_age df = None"
    unfolding find_crossover_age_def by (intro crossover_scan_none) auto
next
  assume "map row_age df1 = [65, 66, 67, 68] \<and> map row_diff df1 = [Num 5, Num 2, Num (- 1), Num (- 3)]"
  then obtain w x y z where "df1 = [w, x, y, z]" "row_age y = 67"
      "row_diff w = Num 5" "row_diff x = Num 2" "row_diff y = Num (- 1)"
    by (auto simp: map_eq_Cons_conv)
  then show "find_crossover_age df1 = Some 67"
    by (simp add: find_crossover_age_def crossover_scan.simps)
next
  assume "map row_diff df2 = [Num 3, Num 0, Num (- 2)]"
  then obtain x y z where "df2 = [x, y, z]" "row_diff x = Num 3" "row_diff y = Num 0"
    by (auto simp: map_eq_Cons_conv)
  then show "find_crossover_age df2 = Some (row_age (df2 ! 1))"
    by (simp add: find_crossover_age_def crossover_scan.simps)
qed


theorem C2_crossover_witness:
  "find_crossover_age
     [\<lparr>row_age = 65, row_early = Num 5, row_regular = Num 0, row_diff = Num 5\<rparr>,
      \<lparr>row_age = 66, row_early = Num 2, row_regular = Num 0, row_diff = Num 2\<rparr>,
      \<lparr>row_age = 67, row_early = Num 0, row_regular = Num 1, row_diff = Num (- 1)\<rparr>,
      \<lparr>row_age = 68, row_early = Num 0, row_regular = Num 3, row_diff = Num (- 3)\<rparr>] = Some 67 \<and>
   find_crossover_age
     [\<lparr>row_age = 60, row_early = Num 4, row_regular = Num 0, row_diff = Num 4\<rparr>,
      \<lparr>row_age = 61, row_early = Num 9, row_regular = Num 0, row_diff = Num 9\<rparr>] = None \<and>
   find_crossover_age
     [\<lparr>row_age = 65, row_early = Num 3, row_regular = Num 0, row_diff = Num 3\<rparr>,
      \<lparr>row_age = 66, row_early = Num 0, row_regular = Num 0, row_diff = Num 0\<rparr>,
      \<lparr>row_age = 67, row_early = Num 0, row_regular = Num 2, row_diff = Num (- 2)\<rparr>] = Some 66"
proof -
  let ?a = "[\<lparr>row_age = 65, row_early = Num 5, row_regular = Num 0, row_diff = Num 5\<rparr>,
      \<lparr>row_age = 66, row_early = Num 2, row_regular = Num 0, row_diff = Num 2\<rparr>,
      \<lparr>row_age = 67, row_early = Num 0, row_regular = Num 1, row_diff = Num (- 1)\<rparr>,
      \<lparr>row_age = 68, row_early = Num 0, row_regular = Num 3, row_diff = Num (- 3)\<rparr>]"
  let ?b = "[\<lparr>row_age = 60, row_early = Num 4, row_regular = Num 0, row_diff = Num 4\<rparr>,
      \<lparr>row_age = 61, row_early = Num 9, row_regular = Num 0, row_diff = Num 9\<rparr>]"
  let ?c = "[\<lparr>row_age = 65, row_early = Num 3, row_regular = Num 0, row_diff = Num 3\<rparr>,
      \<lparr>row_age = 66, row_early = Num 0, row_regular = Num 0, row_diff = Num 0\<rparr>,
      \<lparr>row_age = 67, row_early = Num 0, row_regular = Num 2, row_diff = Num (- 2)\<rparr>]"
  have one: "j = 1" if "1 \<le> j \<and> j < 2" for j :: nat
    using that by arith
  have first: "(1::nat) \<le> 2 \<and> 2 < length ?a \<and> sign_change ?a 2 \<and>
               (\<forall>j. 1 \<le> j \<and> j < 2 \<longrightarrow> \<not> sign_change ?a j)"
    by (auto simp: sign_change_def dest!: one)
  have none: "\<forall>j. 1 \<le> j \<and> j < length ?b \<longrightarrow> \<not> sign_change ?b j"
    by (auto simp: sign_change_def dest!: one)
  have cols: "map row_age ?a = [65, 66, 67, 68] \<and>
              map row_diff ?a = [Num 5, Num 2, Num (- 1), Num (- 3)]"
    by simp
  have diffs: "map row_diff ?c = [Num 3, Num 0, Num (- 2)]"
    by simp
  have "find_crossover_age ?a = Some (row_age (?a ! 2))"
    using first C2_crossover [of 2 ?a ?a ?c, THEN conjunct1] by (rule rev_mp)
  moreover have "find_crossover_age ?b = None"
    using none C2_crossover [of 2 ?b ?a ?c, THEN conjunct2, THEN conjunct1] by (rule rev_mp)
  moreover have "find_crossover_age ?a = Some 67"
    using cols C2_crossover [of 2 ?a ?a ?c, THEN conjunct2, THEN conjunct2, THEN conjunct1]
    by (rule rev_mp)
  moreover have "find_crossover_age ?c = Some (row_age (?c ! 1))"
    using diffs C2_crossover [of 2 ?a ?a ?c, THEN conjunct2, THEN conjunct2, THEN conjunct2]
    by (rule rev_mp)
  ultimately show ?thesis by simp
qed

subsection \<open>The merged frame\<close>

lemma filter_eq_distinct:
  "distinct xs \<Longrightarrow> filter (\<lambda>x. x = a) xs = (if a \<in> set xs then [a] else [])"
  by (induction xs) auto

lemma filter_key_upto:
  "filter (\<lambda>(k, v). k = a) (map (\<lambda>x. (x, f x)) [s..e]) = (if s \<le> a \<and> a \<le> e then [(a, f a)] else [])"
proof -
  have "filter (\<lambda>(k, v). k = a) (map (\<lambda>x. (x, f x)) [s..e])
        = map (\<lambda>x. (x, f x)) (filter (\<lambda>x. x = a) [s..e])"
    by (simp add: filter_map comp_def)
  then show ?thesis
    by (simp add: filter_eq_distinct)
qed

lemma concat_map_single: "concat (map (\<lambda>r. [h r]) xs) = map h xs"
  by (induction xs) simp_all

lemma merge_left_sim:
  assumes "s \<le> e"
  shows "merge_left key left (map (\<lambda>x. (x, f x)) [s..e])
         = Inr (map (\<lambda>r. (r, if s \<le> key r \<and> key r \<le> e then Num (f (key r)) else NaN)) left)"
proof -
  have ne: "map (\<lambda>x. (x, f x)) [s..e] \<noteq> []"
    using assms by simp
  have each: "(case filter (\<lambda>(k, v). k = key r) (map (\<lambda>x. (x, f x)) [s..e]) of
                 [] \<Rightarrow> [(r, NaN)]
               | ms \<Rightarrow> map (\<lambda>(k, v). (r, Num v)) ms)
              = [(r, if s \<le> key r \<and> key r \<le> e then Num (f (key r)) else NaN)]" for r
    by (simp add: filter_key_upto)
  show ?thesis
    unfolding merge_left_def using ne by (simp only: each concat_map_single if_False)
qed

lemma build_merged_df_sim:
  assumes "es \<le> e" "rs \<le> e"
  shows "build_merged_df es e (map (\<lambda>x. (x, fe x)) [es..e]) (map (\<lambda>x. (x, fr x)) [rs..e])
         = Inr (map (\<lambda>a. \<lparr>row_age = a, row_early = Num (fe a),
                           row_regular = Num (if rs \<le> a then fr a else 0),
                           row_diff = Num (fe a - (if rs \<le> a then fr a else 0))\<rparr>) [es..e])"
  unfolding build_merged_df_def
  by (simp add: merge_left_sim [OF assms(1)] merge_left_sim [OF assms(2)] Let_def)

lemma map_of_frame:
  "map_of (map (\<lambda>x. (x, f x)) [s..e]) a = (if s \<le> a \<and> a \<le> e then Some (f a) else None)"
  by (simp add: map_of_map_restrict restrict_map_def)

lemma early_pension_df_eq:
  assumes "0 \<le> 1 + r"
  shows "early_pension_df base years end_age r inc =
     Inr (map (\<lambda>a. (a, py_round (full_precision_capital
                 (early_monthly_pension_at_start base years) (real_of_int base)
                 (quarterly_return_rate r) inc ''early'' regular_pension_start_age
                 (early_pension_start_age years) (early_pension_start_age years) 0 a)))
            [early_pension_start_age years..end_age])"
  using assms by (simp add: early_pension_df_def simulate_investment_eq)

lemma regular_pension_df_eq:
  assumes "0 \<le> 1 + r"
  shows "regular_pension_df base years end_age r inc =
     Inr (map (\<lambda>a. (a, py_round (full_precision_capital
                 (early_monthly_pension_at_start base years) (real_of_int base)
                 (quarterly_return_rate r) inc ''regular'' regular_pension_start_age
                 (early_pension_start_age years) regular_pension_start_age 0 a)))
            [regular_pension_start_age..end_age])"
  using assms by (simp add: regular_pension_df_def simulate_investment_eq)

text \<open>
  C3. When neither simulation fails and both age ranges are not empty, the merged frame
  has one row for every age from the early start age to the end age, in order. In each
  row the early entry is the entry of the early frame at that age, the regular entry is
  the entry of the regular frame at that age, or 0 when that frame has none, which is
  the case at every age below the regular start age, and the difference is the early
  entry minus the regular entry.
\<close>

theorem C3_merged_series:
  assumes "0 \<le> 1 + r" "regular_pension_start_age \<le> end_age"
    and "early_pension_start_age years \<le> end_age"
  shows "\<exists>res edf rdf.
     compare_strategies base years end_age r inc = Inr res \<and>
     early_pension_df base years end_age r inc = Inr edf \<and>
     regular_pension_df base years end_age r inc = Inr rdf \<and>
     map row_age (merged_df res) = [early_pension_start_age years..end_age] \<and>
     (\<forall>row \<in> set (merged_df res).
        (\<exists>x y. map_of edf (row_age row) = Some x \<and> row_early row = Num x \<and>
               y = (case map_of rdf (row_age row) of None \<Rightarrow> 0 | Some v \<Rightarrow> v) \<and>
               row_regular row = Num y \<and> row_diff row = Num (x - y)) \<and>
        (row_age row < regular_pension_start_age \<longrightarrow>
           map_of rdf (row_age row) = None \<and> row_regular row = Num 0))"
proof -
  let ?es = "early_pension_start_age years"
  let ?rs = "regular_pension_start_age"
  define fe where "fe = (\<lambda>a. py_round (full_precision_capital
                 (early_monthly_pension_at_start base years) (real_of_int base)
                 (quarterly_return_rate r) inc ''early'' ?rs ?es ?es 0 a))"
  define fr where "fr = (\<lambda>a. py_round (full_precision_capital
                 (early_monthly_pension_at_start base years) (real_of_int base)
                 (quarterly_return_rate r) inc ''regular'' ?rs ?es ?rs 0 a))"
  define edf where "edf = map (\<lambda>a. (a, fe a)) [?es..end_age]"
  define rdf where "rdf = map (\<lambda>a. (a, fr a)) [?rs..end_age]"
  define m where "m = map (\<lambda>a. \<lparr>row_age = a, row_early = Num (fe a),
                           row_regular = Num (if ?rs \<le> a then fr a else 0),
                           row_diff = Num (fe a - (if ?rs \<le> a then fr a else 0))\<rparr>) [?es..end_age]"
  define res where "res = \<lparr>merged_df = m, crossover_age = find_crossover_age m,
                         reported = crossover_report (find_crossover_age m)\<rparr>"
  have e: "early_pension_df base years end_age r inc = Inr edf"
    unfolding edf_def fe_def using assms(1) by (rule early_pension_df_eq)
  have g: "regular_pension_df base years end_age r inc = Inr rdf"
    unfolding rdf_def fr_def using assms(1) by (rule regular_pension_df_eq)
  have b: "build_merged_df ?es end_age edf rdf = Inr m"
    unfolding edf_def rdf_def m_def using assms(3,2) by (rule build_merged_df_sim)
  have c: "compare_strategies base years end_age r inc = Inr res"
    by (simp add: compare_strategies_def e g b res_def)
  have ages: "map row_age (merged_df res) = [?es..end_age]"
    by (simp add: res_def m_def comp_def)
  have rows: "(\<exists>x y. map_of edf (row_age row) = Some x \<and> row_early row = Num x \<and>
               y = (case map_of rdf (row_age row) of None \<Rightarrow> 0 | Some v \<Rightarrow> v) \<and>
               row_regular row = Num y \<and> row_diff row = Num (x - y)) \<and>
        (row_age row < ?rs \<longrightarrow> map_of rdf (row_age row) = None \<and> row_regular row = Num 0)"
    if "row \<in> set (merged_df res)" for row
  proof -
    from that obtain a where a: "?es \<le> a" "a \<le> end_age"
      and row: "row = \<lparr>row_age = a, row_early = Num (fe a),
                           row_regular = Num (if ?rs \<le> a then fr a else 0),
                           row_diff = Num (fe a - (if ?rs \<le> a then fr a else 0))\<rparr>"
      by (auto simp: res_def m_def)
    show ?thesis
      using a by (simp add: row edf_def rdf_def map_of_frame)
  qed
  from c e g ages rows show ?thesis by blast
qed


theorem C3_merged_series_witness:
  "(0::real) \<le> 1 + 5 / 100 \<and> regular_pension_start_age \<le> 80 \<and> early_pension_start_age 5 \<le> 80 \<and>
   (\<exists>res edf rdf.
     compare_strategies 1000000 5 80 (5 / 100) (34 / 1000) = Inr res \<and>
     early_pension_df 1000000 5 80 (5 / 100) (34 / 1000) = Inr edf \<and>
     regular_pension_df 1000000 5 80 (5 / 100) (34 / 1000) = Inr rdf \<and>
     map row_age (merged_df res) = [early_pension_start_age 5..80] \<and>
     (\<forall>row \<in> set (merged_df res).
        (\<exists>x y. map_of edf (row_age row) = Some x \<and> row_early row = Num x \<and>
               y = (case map_of rdf (row_age row) of None \<Rightarrow> 0 | Some v \<Rightarrow> v) \<and>
               row_regular row = Num y \<and> row_diff row = Num (x - y)) \<and>
        (row_age row < regular_pension_start_age \<longrightarrow>
           map_of rdf (row_age row) = None \<and> row_regular row = Num 0)))"
proof -
  have h1: "(0::real) \<le> 1 + 5 / 100" by simp
  have h2: "regular_pension_start_age \<le> 80" by (simp add: regular_pension_start_age_def)
  have h3: "early_pension_start_age 5 \<le> 80"
    by (simp add: early_pension_start_age_def regular_pension_start_age_def)
  from h1 h2 h3 C3_merged_series [OF h1 h2 h3, of 1000000 "34 / 1000"] show ?thesis
    by (intro conjI)
qed

subsection \<open>No year of early claiming\<close>

lemma income_same_source:
  "annual_pension_income_for_current_year e e inc t rs rs a
   = calculate_annual_pension_with_increase_rate e rs a inc"
  by (simp add: annual_pension_income_for_current_year_def)

lemma year_step_same_source:
  "year_step e e q inc t rs rs a c = year_step e e q inc t' rs rs a c"
  by (simp add: year_step_def income_same_source)

lemma full_precision_capital_same_source:
  "full_precision_capital e e q inc t rs rs start c0 a
   = full_precision_capital e e q inc t' rs rs start c0 a"
proof (cases "start - 1 \<le> a")
  case False
  then show ?thesis by (simp add: full_precision_capital_before)
next
  case True
  then show ?thesis
  proof (induction a rule: int_ge_induct)
    case base
    show ?case by (simp add: full_precision_capital_before)
  next
    case (step i)
    then show ?case
      using year_step_same_source [of e q inc t rs "i + 1" _ t']
      by (simp add: full_precision_capital_step)
  qed
qed

lemma zero_diff_no_sign_change:
  "row_diff (df ! (i - 1)) = Num 0 \<Longrightarrow> \<not> sign_change df i"
  by (simp add: sign_change_def)

text \<open>
  C10. With no year of early claiming the early start age is the regular start age and
  the reduction factor is 1; when the simulations do not fail, the early and the regular
  simulation return the same frame, every difference of the merged frame is 0, no
  crossover age is found and none is reported. A difference of 0 in the row before
  never makes a sign change (\<open>zero_diff_no_sign_change\<close>).
\<close>

theorem C10_no_early_years:
  assumes "0 \<le> 1 + r" "regular_pension_start_age \<le> end_age"
  shows "early_pension_start_age 0 = regular_pension_start_age \<and>
     calculate_early_pension_reduction_rate 0 = 1 \<and>
     (\<exists>df. early_pension_df base 0 end_age r inc = Inr df \<and>
           regular_pension_df base 0 end_age r inc = Inr df) \<and>
     (\<exists>res. compare_strategies base 0 end_age r inc = Inr res \<and>
            map row_age (merged_df res) = [regular_pension_start_age..end_age] \<and>
            (\<forall>row \<in> set (merged_df res). row_diff row = Num 0) \<and>
            crossover_age res = None \<and> reported res = No_Crossover_Found)"
proof -
  let ?rs = "regular_pension_start_age"
  have es: "early_pension_start_age 0 = ?rs"
    by (simp add: early_pension_start_age_def)
  have rate: "calculate_early_pension_reduction_rate 0 = 1"
    by (simp add: calculate_early_pension_reduction_rate_def)
  have amt: "early_monthly_pension_at_start base 0 = real_of_int base"
    by (simp add: early_monthly_pension_at_start_def rate)
  define f where "f = (\<lambda>a. py_round (full_precision_capital (real_of_int base) (real_of_int base)
                 (quarterly_return_rate r) inc ''regular'' ?rs ?rs ?rs 0 a))"
  define df where "df = map (\<lambda>a. (a, f a)) [?rs..end_age]"
  define m where "m = map (\<lambda>a. \<lparr>row_age = a, row_early = Num (f a),
                           row_regular = Num (if ?rs \<le> a then f a else 0),
                           row_diff = Num (f a - (if ?rs \<le> a then f a else 0))\<rparr>) [?rs..end_age]"
  have e: "early_pension_df base 0 end_age r inc = Inr df"
    using early_pension_df_eq [OF assms(1), of base 0 end_age inc]
      full_precision_capital_same_source [of "real_of_int base" _ inc "''early''" ?rs ?rs 0 _ "''regular''"]
    by (simp add: es amt df_def f_def)
  have g: "regular_pension_df base 0 end_age r inc = Inr df"
    using regular_pension_df_eq [OF assms(1), of base 0 end_age inc]
    by (simp add: es amt df_def f_def)
  have b: "build_merged_df ?rs end_age df df = Inr m"
    unfolding df_def m_def using assms(2,2) by (rule build_merged_df_sim)
  have zero: "row_diff row = Num 0" if "row \<in> set m" for row
    using that by (auto simp: m_def)
  have nth_zero: "row_diff (m ! j) = Num 0" if "j < length m" for j
    using that zero by simp
  have none: "find_crossover_age m = None"
    unfolding find_crossover_age_def
  proof (rule crossover_scan_none)
    fix j assume "1 \<le> j" "j < length m"
    then have "row_diff (m ! (j - 1)) = Num 0" by (intro nth_zero) simp
    then show "\<not> sign_change m j" by (rule zero_diff_no_sign_change)
  qed
  have c: "compare_strategies base 0 end_age r inc =
           Inr \<lparr>merged_df = m, crossover_age = None, reported = No_Crossover_Found\<rparr>"
    by (simp add: compare_strategies_def e g b es none crossover_report_def)
  have ages: "map row_age m = [?rs..end_age]"
    by (simp add: m_def comp_def)
  from es rate e g c ages zero show ?thesis by auto
qed

theorem C10_no_early_years_witness:
  "(0::real) \<le> 1 + 5 / 100 \<and> regular_pension_start_age \<le> 80 \<and>
   early_pension_start_age 0 = regular_pension_start_age \<and>
   calculate_early_pension_reduction_rate 0 = 1 \<and>
   (\<exists>df. early_pension_df 1000000 0 80 (5 / 100) (34 / 1000) = Inr df \<and>
         regular_pension_df 1000000 0 80 (5 / 100) (34 / 1000) = Inr df) \<and>
   (\<exists>res. compare_strategies 1000000 0 80 (5 / 100) (34 / 1000) = Inr res \<and>
          map row_age (merged_df res) = [regular_pension_start_age..80] \<and>
          (\<forall>row \<in> set (merged_df res). row_diff row = Num 0) \<and>
          crossover_age res = None \<and> reported res = No_Crossover_Found)"
proof -
  have h1: "(0::real) \<le> 1 + 5 / 100" by simp
  have h2: "regular_pension_start_age \<le> 80" by (simp add: regular_pension_start_age_def)
  from h1 h2 C10_no_early_years [OF h1 h2, of 1000000 "34 / 1000"] show ?thesis
    by (intro conjI) simp_all
qed

end
